theory Spec2Isabelle
  imports Main "HOL-Library.AList"
begin

section \<open>Data model of the modal component (modal.tsx)\<close>

text \<open>
  The component is a class whose methods mutate its fields and talk to the host
  environment: they emit DOM events, attach and detach dynamically created content, and
  play animations. The model threads one record through every method: the fields of the
  class, followed by the part of the environment the methods read and write. Everything
  a method does to the environment is appended to a trace of effects, in order.
\<close>

type_synonym element = nat
  \<comment> \<open>the identity of a DOM element\<close>

datatype jsvalue = JUndefined | JNum int | JStr string | JElem element
  \<comment> \<open>the values of type \<open>any\<close> that travel through the component unchanged\<close>

type_synonym ComponentProps = "(string \<times> jsvalue) list"
  \<comment> \<open>\<open>{[key: string]: any}\<close>, keys in insertion order\<close>

type_synonym ComponentRef = string

type_synonym FrameworkDelegate = nat

datatype Mode = Ios | Md

datatype AnimationBuilder =
    iosEnterAnimation
  | iosLeaveAnimation
  | mdEnterAnimation
  | mdLeaveAnimation
  | CustomAnimation nat
  \<comment> \<open>the four builders imported at lines 9-12, and any builder a caller supplies\<close>

datatype detail = NoDetail | Detail jsvalue "string option"
  \<comment> \<open>\<open>EventEmitter<void>\<close> carries nothing; an \<open>OverlayEventDetail\<close> is
      \<open>{data?: any, role?: string}\<close>\<close>

record CustomEvent =
  ev_type :: string
  bubbles :: bool
  cancelable :: bool
  ev_detail :: detail

record UIEvent =
  ui_cancelable :: bool
  propagationStopped :: bool
  defaultPrevented :: bool
  \<comment> \<open>the \<open>cancelable\<close> attribute the event was created with, and the two flags that
      \<open>ev.stopPropagation()\<close> and \<open>ev.preventDefault()\<close> act on\<close>

datatype error = Error string | AttachError

abbreviation MountError :: error where
  "MountError \<equiv> Error ''container is undefined''"
  \<comment> \<open>line 165: \<open>throw new Error('container is undefined')\<close>\<close>

datatype effect =
    Emitted string detail
      \<comment> \<open>an \<open>EventEmitter\<close> of the class fired: event name, detail\<close>
  | Dispatched element CustomEvent
      \<comment> \<open>\<open>el.dispatchEvent(ev)\<close> on the hosted content\<close>
  | Attached "FrameworkDelegate option" element ComponentRef "string list" ComponentProps element
      \<comment> \<open>\<open>attachComponent(delegate, container, component, cssClasses, props)\<close> and the
          handle it produced\<close>
  | Readied "element option"
      \<comment> \<open>\<open>deepReady(el)\<close>\<close>
  | Played AnimationBuilder
      \<comment> \<open>an animation built by this builder ran to completion\<close>
  | Detached "FrameworkDelegate option" "element option"
      \<comment> \<open>\<open>detachComponent(delegate, element)\<close>\<close>

record Modal =
  usersElement :: "element option"
  presented :: bool
  el :: element
  overlayIndex :: int
  delegate :: "FrameworkDelegate option"
  mode :: Mode
  keyboardClose :: bool
  enterAnimation :: "AnimationBuilder option"
  leaveAnimation :: "AnimationBuilder option"
  component :: ComponentRef
  componentProps :: "ComponentProps option"
  cssClass :: "string list option"
  backdropDismiss :: bool
  showBackdrop :: bool
  animated :: bool
  wrapper :: "element option"
    \<comment> \<open>environment: what \<open>this.el.querySelector(`.modal-wrapper`)\<close> returns now\<close>
  renderable :: "ComponentRef list"
    \<comment> \<open>environment: the content descriptors that resolve to renderable content\<close>
  nextHandle :: element
    \<comment> \<open>environment: the handle the next attach produces\<close>
  mounted :: "element list"
    \<comment> \<open>environment: handles attached and not yet detached\<close>
  trace :: "effect list"
    \<comment> \<open>environment: every effect so far, oldest first\<close>

text \<open>
  The event names of the four emitters, as the \<open>@Event\<close> decorators at lines 100-115
  declare them.
\<close>

abbreviation didPresent :: string where "didPresent \<equiv> ''ionModalDidPresent''"
abbreviation willPresent :: string where "willPresent \<equiv> ''ionModalWillPresent''"
abbreviation willDismiss :: string where "willDismiss \<equiv> ''ionModalWillDismiss''"
abbreviation didDismiss :: string where "didDismiss \<equiv> ''ionModalDidDismiss''"

section \<open>The event bridge\<close>

text \<open>
  The table of lines 229-234, as its own keys. It is only ever indexed with the type of
  an event the handler below is registered for, which is one of the four keys.
\<close>

definition LIFECYCLE_MAP :: "string \<Rightarrow> string option" where
  "LIFECYCLE_MAP = map_of
     [(''ionModalDidPresent'', ''ionViewDidEnter''),
      (''ionModalWillPresent'', ''ionViewWillEnter''),
      (''ionModalWillDismiss'', ''ionViewWillDismiss''),
      (''ionModalDidDismiss'', ''ionViewDidDismiss'')]"

text \<open>
  \<open>lifecycle\<close> (lines 138-153) is registered for the four event names above and receives
  the event. \<open>el && name\<close> holds when content has been attached and the type is a key of
  the table.
\<close>

definition lifecycle :: "CustomEvent \<Rightarrow> Modal \<Rightarrow> Modal" where
  "lifecycle modalEvent m =
     (case usersElement m of
        None \<Rightarrow> m
      | Some e \<Rightarrow>
          (case LIFECYCLE_MAP (ev_type modalEvent) of
             None \<Rightarrow> m
           | Some name \<Rightarrow>
               m\<lparr>trace := trace m @
                    [Dispatched e \<lparr>ev_type = name, bubbles = False, cancelable = False,
                                   ev_detail = ev_detail modalEvent\<rparr>]\<rparr>))"

text \<open>
  \<open>emitter.emit(detail)\<close> dispatches a custom event of the emitter's name on the host
  element. The class listens on its own host for exactly these names (the four
  \<open>@Listen\<close> decorators of \<open>lifecycle\<close>), so the handler runs on the event before
  \<open>emit\<close> returns.
\<close>

definition emit :: "string \<Rightarrow> detail \<Rightarrow> Modal \<Rightarrow> Modal" where
  "emit name d m =
     lifecycle \<lparr>ev_type = name, bubbles = True, cancelable = True, ev_detail = d\<rparr>
       (m\<lparr>trace := trace m @ [Emitted name d]\<rparr>)"

section \<open>Collaborators that modal.tsx imports\<close>

text \<open>
  Modelled from the spec: \<open>attachComponent\<close> of utils/framework-delegate is missing.
  Section 4.3: \<open>attach(container, contentDescriptor, extraMarkerClasses, props)\<close>
  produces a mounted content handle inside the container, and fails with \<open>AttachError\<close>
  if the descriptor cannot be resolved to renderable content. The source passes its
  \<open>delegate\<close> first.
\<close>

definition attachComponent ::
  "FrameworkDelegate option \<Rightarrow> element \<Rightarrow> ComponentRef \<Rightarrow> string list \<Rightarrow> ComponentProps
     \<Rightarrow> Modal \<Rightarrow> error + (element \<times> Modal)" where
  "attachComponent dlg container cmp cssClasses props m =
     (if cmp \<in> set (renderable m) then
        Inr (nextHandle m,
             m\<lparr>nextHandle := Suc (nextHandle m),
               mounted := mounted m @ [nextHandle m],
               trace := trace m @ [Attached dlg container cmp cssClasses props (nextHandle m)]\<rparr>)
      else Inl AttachError)"

text \<open>
  Modelled from the spec: \<open>deepReady\<close> of utils/transition is missing. Section 4.4:
  \<open>awaitReady(handle)\<close> waits until the content reports ready and never fails.
\<close>

definition deepReady :: "element option \<Rightarrow> Modal \<Rightarrow> Modal" where
  "deepReady e m = m\<lparr>trace := trace m @ [Readied e]\<rparr>"

text \<open>
  Modelled from the spec: \<open>detachComponent\<close> of utils/framework-delegate is missing.
  Section 4.3: \<open>detach(handle)\<close> unmounts the handle, and is a no-op if the handle is
  already released.
\<close>

definition detachComponent :: "FrameworkDelegate option \<Rightarrow> element option \<Rightarrow> Modal \<Rightarrow> Modal" where
  "detachComponent dlg e m =
     m\<lparr>mounted := (case e of None \<Rightarrow> mounted m | Some h \<Rightarrow> removeAll h (mounted m)),
       trace := trace m @ [Detached dlg e]\<rparr>"

text \<open>
  Modelled from the spec: the animation runner behind the helpers of utils/overlays is
  missing. Section 4.2: "If animated == false, the orchestration skips animation entirely
  and treats it as instantaneously complete"; otherwise the animation of the chosen
  builder runs to completion.
\<close>

definition overlayAnimation :: "AnimationBuilder \<Rightarrow> Modal \<Rightarrow> Modal" where
  "overlayAnimation builder overlay =
     (if animated overlay then overlay\<lparr>trace := trace overlay @ [Played builder]\<rparr>
      else overlay)"

text \<open>
  Modelled from the spec: the helper \<open>present\<close> of utils/overlays is missing; the source
  calls it with the overlay, a name and the ios and md builders. Section 4.1, after the
  mount and the wait for readiness, which are in modal.tsx: "emits WillPresent; runs the
  theme-selected enter animation; on animation completion sets presented = true, emits
  DidPresent". Section 4.2: a caller-supplied \<open>enterAnimation\<close> takes precedence over
  the builder of the mode.
\<close>

definition overlays_present ::
  "string \<Rightarrow> AnimationBuilder \<Rightarrow> AnimationBuilder \<Rightarrow> Modal \<Rightarrow> Modal" where
  "overlays_present name iosAnim mdAnim overlay =
     (let o1 = emit willPresent NoDetail overlay;
          builder = (case enterAnimation o1 of
                       Some b \<Rightarrow> b
                     | None \<Rightarrow> (case mode o1 of Ios \<Rightarrow> iosAnim | Md \<Rightarrow> mdAnim));
          o2 = overlayAnimation builder o1;
          o3 = o2\<lparr>presented := True\<rparr>
      in emit didPresent NoDetail o3)"

text \<open>
  Modelled from the spec: the helper \<open>dismiss\<close> of utils/overlays is missing; the source
  calls it with the overlay, the data, the role, a name and the ios and md builders.
  Section 4.1: it returns false on an overlay that is not presented (the only state the
  overlay carries is the boolean \<open>presented\<close>, section 9); otherwise it "emits
  WillDismiss{data, role}; runs the theme-selected leave animation; on completion emits
  DidDismiss{data, role}, sets presented = false" and returns true. The detach that
  follows is in modal.tsx. Section 4.2: a caller-supplied \<open>leaveAnimation\<close> takes
  precedence over the builder of the mode.
\<close>

definition overlays_dismiss ::
  "jsvalue \<Rightarrow> string option \<Rightarrow> string \<Rightarrow> AnimationBuilder \<Rightarrow> AnimationBuilder \<Rightarrow> Modal
     \<Rightarrow> bool \<times> Modal" where
  "overlays_dismiss data role name iosAnim mdAnim overlay =
     (if \<not> presented overlay then (False, overlay)
      else
        (let o1 = emit willDismiss (Detail data role) overlay;
             builder = (case leaveAnimation o1 of
                          Some b \<Rightarrow> b
                        | None \<Rightarrow> (case mode o1 of Ios \<Rightarrow> iosAnim | Md \<Rightarrow> mdAnim));
             o2 = overlayAnimation builder o1;
             o3 = emit didDismiss (Detail data role) o2
         in (True, o3\<lparr>presented := False\<rparr>)))"

text \<open>
  Modelled from the spec: the constant \<open>BACKDROP\<close> of utils/overlays is missing.
  Section 4.1: the role "backdrop" is the reserved sentinel for a dismissal by a tap on
  the scrim.
\<close>

definition BACKDROP :: string where
  "BACKDROP = ''backdrop''"

section \<open>The methods of the class\<close>

text \<open>
  \<open>present\<close> (lines 158-174) is an async function: it runs without interruption up to its
  first \<open>await\<close>, the one on \<open>attachComponent\<close>, and gives control back to whoever
  called it. \<open>present_sync\<close> is that first part: it either settles the call (the guard
  returns, or an error is thrown) or leaves it suspended with the attach requested.
  \<open>present_resume\<close> is the rest of the body, run when the attach has produced its handle.
  \<open>present\<close> is a call that nothing else interleaves with.
\<close>

datatype suspension = Settled "error + unit" | AwaitingAttach element

definition present_sync :: "Modal \<Rightarrow> suspension \<times> Modal" where
  "present_sync m =
     (if presented m then (Settled (Inr ()), m)
      else
        (case wrapper m of
           None \<Rightarrow> (Settled (Inl MountError), m)
         | Some container \<Rightarrow>
             (let props = AList.update ''modal'' (JElem (el m))
                            (case componentProps m of None \<Rightarrow> [] | Some p \<Rightarrow> p)
              in case attachComponent (delegate m) container (component m) [''ion-page'']
                        props m of
                   Inl e \<Rightarrow> (Settled (Inl e), m)
                 | Inr (h, m') \<Rightarrow> (AwaitingAttach h, m'))))"

definition present_resume :: "element \<Rightarrow> Modal \<Rightarrow> (error + unit) \<times> Modal" where
  "present_resume h m =
     (let m1 = m\<lparr>usersElement := Some h\<rparr>;
          m2 = deepReady (usersElement m1) m1
      in (Inr (), overlays_present ''modalEnter'' iosEnterAnimation mdEnterAnimation m2))"

definition present :: "Modal \<Rightarrow> (error + unit) \<times> Modal" where
  "present m =
     (case present_sync m of
        (Settled r, m') \<Rightarrow> (r, m')
      | (AwaitingAttach h, m') \<Rightarrow> present_resume h m')"

text \<open>\<open>dismiss\<close> (lines 179-186); an omitted \<open>data\<close> is \<open>JUndefined\<close>, an omitted
  \<open>role\<close> is \<open>None\<close>.\<close>

definition dismiss :: "jsvalue \<Rightarrow> string option \<Rightarrow> Modal \<Rightarrow> bool \<times> Modal" where
  "dismiss data role m =
     (case overlays_dismiss data role ''modalLeave'' iosLeaveAnimation mdLeaveAnimation m of
        (dismissed, m') \<Rightarrow>
          if dismissed then (dismissed, detachComponent (delegate m') (usersElement m') m')
          else (dismissed, m'))"

text \<open>The listeners for \<open>ionDismiss\<close> (lines 125-131) and \<open>ionBackdropTap\<close>
  (lines 133-136).\<close>

text \<open>
  The two DOM methods the listener calls on the event. \<open>preventDefault()\<close> sets the
  canceled flag of a cancelable event and does nothing to an event that is not
  cancelable.
\<close>

definition stopPropagation :: "UIEvent \<Rightarrow> UIEvent" where
  "stopPropagation ev = ev\<lparr>propagationStopped := True\<rparr>"

definition preventDefault :: "UIEvent \<Rightarrow> UIEvent" where
  "preventDefault ev = (if ui_cancelable ev then ev\<lparr>defaultPrevented := True\<rparr> else ev)"

definition onDismiss :: "UIEvent \<Rightarrow> Modal \<Rightarrow> UIEvent \<times> bool \<times> Modal" where
  "onDismiss ev m =
     (let ev1 = stopPropagation ev;
          ev2 = preventDefault ev1
      in (ev2, dismiss JUndefined None m))"

definition onBackdropTap :: "Modal \<Rightarrow> bool \<times> Modal" where
  "onBackdropTap m = dismiss JUndefined (Some BACKDROP) m"

section \<open>Rendering\<close>

text \<open>
  \<open>createThemedClasses\<close> and \<open>getClassMap\<close> (utils/theme) are not part of modal.tsx; they
  are parameters of the two functions that call them. A class map is a list of class
  names with their flags, and spreading one object into another keeps the keys of the
  first and overrides or appends those of the second. (The list keeps insertion order;
  an object would enumerate keys that look like array indices first. Nothing below
  depends on the order of a class map.)
\<close>

type_synonym CssClassMap = "(string \<times> bool) list"

definition spread :: "('k \<times> 'v) list \<Rightarrow> ('k \<times> 'v) list \<Rightarrow> ('k \<times> 'v) list" where
  "spread a b = foldl (\<lambda>acc kv. AList.update (fst kv) (snd kv) acc) a b"

text \<open>
  \<open>overlayIndex\<close> is a \<open>number\<close>, an IEEE 754 double; the spec types it as an integer,
  and the model holds its integer value. The sum of two such numbers is the exact sum
  rounded to the nearest double, ties to the even significand. Doubles of magnitude below
  \<open>2^53 = 9007199254740992\<close> are one apart; from there on the distance doubles with
  every further bit. Adding 20000 to a double never leaves the finite range.
\<close>

function spacing :: "nat \<Rightarrow> nat" where
  "spacing n = (if n < 9007199254740992 then 1 else 2 * spacing (n div 2))"
  by pat_completeness auto
termination
  by (relation "measure (\<lambda>n. n)") auto

declare spacing.simps [simp del]

definition round_double :: "int \<Rightarrow> int" where
  "round_double x =
     (let u = int (spacing (nat \<bar>x\<bar>));
          q = x div u;
          r = x mod u
      in if 2 * r < u then q * u
         else if u < 2 * r then (q + 1) * u
         else if even q then q * u
         else (q + 1) * u)"

definition js_add :: "int \<Rightarrow> int \<Rightarrow> int" where
  "js_add a b = round_double (a + b)"

record HostData =
  no_router :: bool
  host_class :: CssClassMap
  style_zIndex :: int

definition hostData ::
  "(Mode \<Rightarrow> string \<Rightarrow> CssClassMap) \<Rightarrow> (string list option \<Rightarrow> CssClassMap) \<Rightarrow> Modal \<Rightarrow> HostData" where
  "hostData createThemedClasses getClassMap m =
     \<lparr>no_router = True,
      host_class = spread (createThemedClasses (mode m) ''modal'') (getClassMap (cssClass m)),
      style_zIndex = js_add 20000 (overlayIndex m)\<rparr>"

datatype vnode =
    IonBackdrop bool bool
      \<comment> \<open>\<open><ion-backdrop visible=... tappable=.../>\<close>\<close>
  | Div string CssClassMap
      \<comment> \<open>\<open><div role=... class=...>\<close>\<close>

definition render :: "(Mode \<Rightarrow> string \<Rightarrow> CssClassMap) \<Rightarrow> Modal \<Rightarrow> vnode list" where
  "render createThemedClasses m =
     (let dialogClasses = createThemedClasses (mode m) ''modal-wrapper''
      in [IonBackdrop (showBackdrop m) (backdropDismiss m), Div ''dialog'' dialogClasses])"

section \<open>The backdrop\<close>

text \<open>
  Modelled from the spec: the \<open>ion-backdrop\<close> component is missing. Section 4.5: a tap
  on the backdrop, when it is rendered tappable, fires \<open>ionBackdropTap\<close>, which reaches
  the listener of the modal; a backdrop that is not tappable fires nothing.
\<close>

definition backdrop_tap :: "(Mode \<Rightarrow> string \<Rightarrow> CssClassMap) \<Rightarrow> Modal \<Rightarrow> Modal" where
  "backdrop_tap createThemedClasses m =
     (case render createThemedClasses m of
        IonBackdrop visible tappable # rest \<Rightarrow>
          (if tappable then snd (onBackdropTap m) else m)
      | _ \<Rightarrow> m)"

section \<open>The animation table of the spec\<close>

text \<open>
  Modelled from the spec: the table of section 4.2, \<open>select(mode, direction)\<close>, in the
  spec's words, with ThemeA the mode \<open>ios\<close> and ThemeB the mode \<open>md\<close>. The source has
  no such function: each method hands the two builders of its direction to the helper,
  which picks by mode. The table is here to be compared with what the methods play.
\<close>

datatype direction = Enter | Leave

fun select :: "Mode \<Rightarrow> direction \<Rightarrow> AnimationBuilder" where
  "select Ios Enter = iosEnterAnimation"
| "select Ios Leave = iosLeaveAnimation"
| "select Md Enter = mdEnterAnimation"
| "select Md Leave = mdLeaveAnimation"

section \<open>Observations on a trace\<close>

text \<open>What the bridge forwards to the content for one event: nothing when no content
  has been attached.\<close>

definition forwarded :: "element option \<Rightarrow> string \<Rightarrow> detail \<Rightarrow> effect list" where
  "forwarded e name d =
     (case e of
        None \<Rightarrow> []
      | Some h \<Rightarrow>
          [Dispatched h \<lparr>ev_type = name, bubbles = False, cancelable = False, ev_detail = d\<rparr>])"

fun emitted :: "effect list \<Rightarrow> (string \<times> detail) list" where
  "emitted [] = []"
| "emitted (Emitted n d # es) = (n, d) # emitted es"
| "emitted (_ # es) = emitted es"

fun attach_calls :: "effect list \<Rightarrow> (element \<times> ComponentRef \<times> string list \<times> ComponentProps) list" where
  "attach_calls [] = []"
| "attach_calls (Attached dlg c cmp cls props h # es) = (c, cmp, cls, props) # attach_calls es"
| "attach_calls (_ # es) = attach_calls es"

fun detach_calls :: "effect list \<Rightarrow> element option list" where
  "detach_calls [] = []"
| "detach_calls (Detached dlg e # es) = e # detach_calls es"
| "detach_calls (_ # es) = detach_calls es"

fun played :: "effect list \<Rightarrow> AnimationBuilder list" where
  "played [] = []"
| "played (Played b # es) = b # played es"
| "played (_ # es) = played es"

section \<open>A concrete instance\<close>

definition fresh_modal :: Modal where
  "fresh_modal =
     \<lparr>usersElement = None, presented = False, el = 1, overlayIndex = 3, delegate = None,
      mode = Ios, keyboardClose = True, enterAnimation = None, leaveAnimation = None,
      component = ''my-page'', componentProps = Some [(''title'', JStr ''Hello'')],
      cssClass = None, backdropDismiss = True, showBackdrop = True, animated = True,
      wrapper = Some 2, renderable = [''my-page''], nextHandle = 10, mounted = [],
      trace = []\<rparr>"

definition no_classes :: "Mode \<Rightarrow> string \<Rightarrow> CssClassMap" where
  "no_classes md name = []"

definition no_class_map :: "string list option \<Rightarrow> CssClassMap" where
  "no_class_map cs = []"

text \<open>The same instance after \<open>present()\<close>, and after \<open>present()\<close> then
  \<open>dismiss()\<close>.\<close>

definition shown_modal :: Modal where
  "shown_modal = snd (present fresh_modal)"

definition gone_modal :: Modal where
  "gone_modal = snd (dismiss JUndefined None shown_modal)"

section \<open>Facts shared by the proofs\<close>

lemma LIFECYCLE_MAP_simps:
  "LIFECYCLE_MAP ''ionModalDidPresent'' = Some ''ionViewDidEnter''"
  "LIFECYCLE_MAP ''ionModalWillPresent'' = Some ''ionViewWillEnter''"
  "LIFECYCLE_MAP ''ionModalWillDismiss'' = Some ''ionViewWillDismiss''"
  "LIFECYCLE_MAP ''ionModalDidDismiss'' = Some ''ionViewDidDismiss''"
  by (simp_all add: LIFECYCLE_MAP_def)

lemma emit_trace:
  "LIFECYCLE_MAP n = Some v \<Longrightarrow>
   emit n d m = m\<lparr>trace := trace m @ Emitted n d # forwarded (usersElement m) v d\<rparr>"
  by (simp add: emit_def lifecycle_def forwarded_def split: option.split)

lemma select_by_mode:
  "(case md of Ios \<Rightarrow> iosEnterAnimation | Md \<Rightarrow> mdEnterAnimation) = select md Enter"
  "(case md of Ios \<Rightarrow> iosLeaveAnimation | Md \<Rightarrow> mdLeaveAnimation) = select md Leave"
  by (cases md; simp)+

lemma present_sync_idle:
  assumes "\<not> presented m" "wrapper m = Some c" "component m \<in> set (renderable m)"
  shows "present_sync m =
    (AwaitingAttach (nextHandle m),
     m\<lparr>nextHandle := Suc (nextHandle m),
       mounted := mounted m @ [nextHandle m],
       trace := trace m @
         [Attached (delegate m) c (component m) [''ion-page'']
            (AList.update ''modal'' (JElem (el m))
               (case componentProps m of None \<Rightarrow> [] | Some p \<Rightarrow> p))
            (nextHandle m)]\<rparr>)"
  using assms by (simp add: present_sync_def attachComponent_def)

lemma present_idle:
  assumes "\<not> presented m" "wrapper m = Some c" "component m \<in> set (renderable m)"
  shows "present m =
    (Inr (),
     m\<lparr>usersElement := Some (nextHandle m),
       presented := True,
       nextHandle := Suc (nextHandle m),
       mounted := mounted m @ [nextHandle m],
       trace := trace m @
         [Attached (delegate m) c (component m) [''ion-page'']
            (AList.update ''modal'' (JElem (el m))
               (case componentProps m of None \<Rightarrow> [] | Some p \<Rightarrow> p))
            (nextHandle m),
          Readied (Some (nextHandle m)),
          Emitted willPresent NoDetail] @
         forwarded (Some (nextHandle m)) ''ionViewWillEnter'' NoDetail @
         (if animated m
          then [Played (case enterAnimation m of
                          Some b \<Rightarrow> b
                        | None \<Rightarrow> select (mode m) Enter)]
          else []) @
         [Emitted didPresent NoDetail] @
         forwarded (Some (nextHandle m)) ''ionViewDidEnter'' NoDetail\<rparr>)"
  using assms
  by (simp add: present_def present_sync_idle present_resume_def deepReady_def
      overlays_present_def overlayAnimation_def Let_def emit_trace LIFECYCLE_MAP_simps
      select_by_mode split: option.split)

lemma present_presented: "presented m \<Longrightarrow> present m = (Inr (), m)"
  by (simp add: present_def present_sync_def)

lemma present_no_container:
  "\<not> presented m \<Longrightarrow> wrapper m = None \<Longrightarrow> present m = (Inl MountError, m)"
  by (simp add: present_def present_sync_def)

lemma present_unresolved:
  "\<not> presented m \<Longrightarrow> wrapper m = Some c \<Longrightarrow> component m \<notin> set (renderable m) \<Longrightarrow>
   present m = (Inl AttachError, m)"
  by (simp add: present_def present_sync_def attachComponent_def)

lemma dismiss_presented:
  assumes "presented m"
  shows "dismiss data role m =
    (True,
     m\<lparr>presented := False,
       mounted := (case usersElement m of
                     None \<Rightarrow> mounted m
                   | Some h \<Rightarrow> removeAll h (mounted m)),
       trace := trace m @
         [Emitted willDismiss (Detail data role)] @
         forwarded (usersElement m) ''ionViewWillDismiss'' (Detail data role) @
         (if animated m
          then [Played (case leaveAnimation m of
                          Some b \<Rightarrow> b
                        | None \<Rightarrow> select (mode m) Leave)]
          else []) @
         [Emitted didDismiss (Detail data role)] @
         forwarded (usersElement m) ''ionViewDidDismiss'' (Detail data role) @
         [Detached (delegate m) (usersElement m)]\<rparr>)"
  using assms
  by (cases "usersElement m")
     (simp_all add: dismiss_def overlays_dismiss_def detachComponent_def overlayAnimation_def
        Let_def emit_trace LIFECYCLE_MAP_simps select_by_mode split: option.split)

lemma dismiss_not_presented: "\<not> presented m \<Longrightarrow> dismiss data role m = (False, m)"
  by (simp add: dismiss_def overlays_dismiss_def)

lemma forwarded_Some:
  "forwarded (Some h) n d =
     [Dispatched h \<lparr>ev_type = n, bubbles = False, cancelable = False, ev_detail = d\<rparr>]"
  by (simp add: forwarded_def)

lemma emitted_forwarded [simp]: "emitted (forwarded e n d) = []"
  by (cases e) (simp_all add: forwarded_def)

lemma attach_calls_forwarded [simp]: "attach_calls (forwarded e n d) = []"
  by (cases e) (simp_all add: forwarded_def)

lemma detach_calls_forwarded [simp]: "detach_calls (forwarded e n d) = []"
  by (cases e) (simp_all add: forwarded_def)

lemma played_forwarded [simp]: "played (forwarded e n d) = []"
  by (cases e) (simp_all add: forwarded_def)

lemma fresh_modal_shown:
  "shown_modal =
     fresh_modal\<lparr>usersElement := Some 10, presented := True, nextHandle := 11, mounted := [10],
       trace :=
         [Attached None 2 ''my-page'' [''ion-page'']
            [(''title'', JStr ''Hello''), (''modal'', JElem 1)] 10,
          Readied (Some 10),
          Emitted willPresent NoDetail,
          Dispatched 10 \<lparr>ev_type = ''ionViewWillEnter'', bubbles = False, cancelable = False,
                          ev_detail = NoDetail\<rparr>,
          Played iosEnterAnimation,
          Emitted didPresent NoDetail,
          Dispatched 10 \<lparr>ev_type = ''ionViewDidEnter'', bubbles = False, cancelable = False,
                          ev_detail = NoDetail\<rparr>]\<rparr>"
  unfolding shown_modal_def
  by (subst present_idle [where c = 2]) (simp_all add: fresh_modal_def forwarded_def)

lemma emitted_append: "emitted (xs @ ys) = emitted xs @ emitted ys"
  by (induction xs rule: emitted.induct) simp_all

lemma attach_calls_append: "attach_calls (xs @ ys) = attach_calls xs @ attach_calls ys"
  by (induction xs rule: attach_calls.induct) simp_all

lemma detach_calls_append: "detach_calls (xs @ ys) = detach_calls xs @ detach_calls ys"
  by (induction xs rule: detach_calls.induct) simp_all

lemma played_append: "played (xs @ ys) = played xs @ played ys"
  by (induction xs rule: played.induct) simp_all

lemma present_fresh_modal: "present fresh_modal = (Inr (), shown_modal)"
  by (simp add: shown_modal_def present_idle [where c = 2] fresh_modal_def)

lemma fresh_modal_gone:
  "gone_modal =
     fresh_modal\<lparr>usersElement := Some 10, presented := False, nextHandle := 11, mounted := [],
       trace :=
         [Attached None 2 ''my-page'' [''ion-page'']
            [(''title'', JStr ''Hello''), (''modal'', JElem 1)] 10,
          Readied (Some 10),
          Emitted willPresent NoDetail,
          Dispatched 10 \<lparr>ev_type = ''ionViewWillEnter'', bubbles = False, cancelable = False,
                          ev_detail = NoDetail\<rparr>,
          Played iosEnterAnimation,
          Emitted didPresent NoDetail,
          Dispatched 10 \<lparr>ev_type = ''ionViewDidEnter'', bubbles = False, cancelable = False,
                          ev_detail = NoDetail\<rparr>,
          Emitted willDismiss (Detail JUndefined None),
          Dispatched 10 \<lparr>ev_type = ''ionViewWillDismiss'', bubbles = False,
                          cancelable = False, ev_detail = Detail JUndefined None\<rparr>,
          Played iosLeaveAnimation,
          Emitted didDismiss (Detail JUndefined None),
          Dispatched 10 \<lparr>ev_type = ''ionViewDidDismiss'', bubbles = False,
                          cancelable = False, ev_detail = Detail JUndefined None\<rparr>,
          Detached None (Some 10)]\<rparr>"
  unfolding gone_modal_def
  by (simp add: dismiss_presented fresh_modal_shown) (simp add: fresh_modal_def forwarded_def)

lemma dismiss_shown_modal: "dismiss JUndefined None shown_modal = (True, gone_modal)"
  by (simp add: gone_modal_def dismiss_presented fresh_modal_shown)

lemma spacing_small: "n < 9007199254740992 \<Longrightarrow> spacing n = 1"
  by (subst spacing.simps) simp

lemma spacing_edge: "spacing 9007199254740992 = 2"
  by (subst spacing.simps) (simp add: spacing_small)

lemma spacing_above:
  "spacing 9007199254760991 = 2" "spacing 9007199254760992 = 2"
  by (subst spacing.simps, simp add: spacing_small)+

lemma round_double_exact:
  assumes "\<bar>x\<bar> \<le> 9007199254740992"
  shows "round_double x = x"
proof (cases "\<bar>x\<bar> < 9007199254740992")
  case True
  then have "nat \<bar>x\<bar> < 9007199254740992" by simp
  then have "spacing (nat \<bar>x\<bar>) = 1" by (rule spacing_small)
  then show ?thesis by (simp add: round_double_def)
next
  case False
  with assms have e: "\<bar>x\<bar> = 9007199254740992" by simp
  then have "nat \<bar>x\<bar> = 9007199254740992" by simp
  then have s: "spacing (nat \<bar>x\<bar>) = 2" by (simp add: spacing_edge)
  from e have "x = 9007199254740992 \<or> x = - 9007199254740992" by arith
  then show ?thesis
  proof
    assume "x = 9007199254740992"
    with s show ?thesis by (simp add: round_double_def Let_def)
  next
    assume "x = - 9007199254740992"
    with s show ?thesis by (simp add: round_double_def Let_def)
  qed
qed

section \<open>Stacking order\<close>

text \<open>
  Claim C9, as amended. The z-index the host is rendered with is the sum, as a number,
  of the constant 20000 and the instance's overlayIndex. For an overlayIndex between
  \<open>-2^53\<close> and \<open>2^53 - 20000 = 9007199254720992\<close> the sum is exact, so it equals
  20000 + overlayIndex, and of two instances in that range the one with the larger
  overlayIndex gets the strictly larger z-index.
\<close>

theorem hostData_zIndex:
  "(- 9007199254740992 \<le> overlayIndex m \<and> overlayIndex m \<le> 9007199254720992 \<longrightarrow>
      style_zIndex (hostData t c m) = 20000 + overlayIndex m) \<and>
   (- 9007199254740992 \<le> overlayIndex a \<and> overlayIndex a < overlayIndex b \<and>
    overlayIndex b \<le> 9007199254720992 \<longrightarrow>
      style_zIndex (hostData t c a) < style_zIndex (hostData t c b))"
proof -
  have exact: "style_zIndex (hostData t c x) = 20000 + overlayIndex x"
    if "- 9007199254740992 \<le> overlayIndex x" and "overlayIndex x \<le> 9007199254720992" for x
  proof -
    from that have "\<bar>20000 + overlayIndex x\<bar> \<le> 9007199254740992" by arith
    then show ?thesis
      by (simp add: hostData_def js_add_def round_double_exact)
  qed
  show ?thesis
  proof (intro conjI impI)
    assume "- 9007199254740992 \<le> overlayIndex m \<and> overlayIndex m \<le> 9007199254720992"
    then show "style_zIndex (hostData t c m) = 20000 + overlayIndex m"
      by (simp add: exact)
  next
    assume h: "- 9007199254740992 \<le> overlayIndex a \<and> overlayIndex a < overlayIndex b \<and>
      overlayIndex b \<le> 9007199254720992"
    then have "style_zIndex (hostData t c a) = 20000 + overlayIndex a"
      and "style_zIndex (hostData t c b) = 20000 + overlayIndex b"
      by (simp_all add: exact)
    with h show "style_zIndex (hostData t c a) < style_zIndex (hostData t c b)"
      by simp
  qed
qed

theorem hostData_zIndex_witness:
  "- 9007199254740992 \<le> overlayIndex fresh_modal \<and>
   overlayIndex fresh_modal < overlayIndex (fresh_modal\<lparr>overlayIndex := 4\<rparr>) \<and>
   overlayIndex (fresh_modal\<lparr>overlayIndex := 4\<rparr>) \<le> 9007199254720992 \<and>
   style_zIndex (hostData no_classes no_class_map fresh_modal) = 20003 \<and>
   style_zIndex (hostData no_classes no_class_map fresh_modal)
     < style_zIndex (hostData no_classes no_class_map (fresh_modal\<lparr>overlayIndex := 4\<rparr>))"
proof -
  have h: "overlayIndex fresh_modal = 3" "overlayIndex (fresh_modal\<lparr>overlayIndex := 4\<rparr>) = 4"
    by (simp_all add: fresh_modal_def)
  from hostData_zIndex [of fresh_modal no_classes no_class_map fresh_modal
         "fresh_modal\<lparr>overlayIndex := 4\<rparr>"] h
  show ?thesis by simp
qed

text \<open>
  Claim C9 as stated fails beyond that range, where the sum is rounded. The overlay
  indices \<open>2^53 - 1\<close> and \<open>2^53\<close> are both doubles; the exact sum
  \<open>20000 + (2^53 - 1) = 9007199254760991\<close> is not, and rounds to 9007199254760992, the
  z-index of the instance with the larger index too.
\<close>

theorem hostData_zIndex_rounding_counterexample:
  "overlayIndex (fresh_modal\<lparr>overlayIndex := 9007199254740991\<rparr>)
     < overlayIndex (fresh_modal\<lparr>overlayIndex := 9007199254740992\<rparr>) \<and>
   style_zIndex (hostData no_classes no_class_map
      (fresh_modal\<lparr>overlayIndex := 9007199254740991\<rparr>)) = 9007199254760992 \<and>
   style_zIndex (hostData no_classes no_class_map
      (fresh_modal\<lparr>overlayIndex := 9007199254740992\<rparr>)) = 9007199254760992 \<and>
   style_zIndex (hostData no_classes no_class_map
      (fresh_modal\<lparr>overlayIndex := 9007199254740991\<rparr>)) \<noteq> 20000 + 9007199254740991"
  by (simp add: hostData_def js_add_def round_double_def spacing_above Let_def)

section \<open>The event bridge forwards the four lifecycle events\<close>

text \<open>
  Claim C5, as amended. For each of the four lifecycle events of the instance (the
  emitters willPresent, didPresent, willDismiss and didDismiss, named
  ionModalWillPresent and so on) the bridge dispatches exactly one event to the content
  element held in the field \<open>usersElement\<close>, named ionViewWillEnter, ionViewDidEnter,
  ionViewWillDismiss and ionViewDidDismiss in that order, not bubbling, not cancelable,
  with the detail of the event it received; it leaves everything as it is when the field
  is unset, which is the case until the first attach has completed. This holds for the
  handler on any event of that type, and so for each emission of the instance, whether
  or not the element in the field is still mounted.
\<close>

theorem lifecycle_bridge:
  assumes "(t, n) \<in> set [(willPresent, ''ionViewWillEnter''), (didPresent, ''ionViewDidEnter''),
                         (willDismiss, ''ionViewWillDismiss''), (didDismiss, ''ionViewDidDismiss'')]"
  shows "(usersElement m = Some h \<longrightarrow>
            lifecycle \<lparr>ev_type = t, bubbles = b, cancelable = c, ev_detail = d\<rparr> m =
              m\<lparr>trace := trace m @
                   [Dispatched h \<lparr>ev_type = n, bubbles = False, cancelable = False,
                                  ev_detail = d\<rparr>]\<rparr> \<and>
            emit t d m =
              m\<lparr>trace := trace m @
                   [Emitted t d,
                    Dispatched h \<lparr>ev_type = n, bubbles = False, cancelable = False,
                                  ev_detail = d\<rparr>]\<rparr>) \<and>
         (usersElement m = None \<longrightarrow>
            lifecycle \<lparr>ev_type = t, bubbles = b, cancelable = c, ev_detail = d\<rparr> m = m \<and>
            emit t d m = m\<lparr>trace := trace m @ [Emitted t d]\<rparr>)"
proof -
  from assms have "LIFECYCLE_MAP t = Some n"
    by (auto simp: LIFECYCLE_MAP_def)
  then show ?thesis
    by (simp add: emit_def lifecycle_def)
qed

theorem lifecycle_bridge_witness:
  "usersElement shown_modal = Some 10 \<and>
   lifecycle \<lparr>ev_type = willDismiss, bubbles = True, cancelable = True,
              ev_detail = Detail (JNum 1) (Some ''custom'')\<rparr> shown_modal =
     shown_modal\<lparr>trace := trace shown_modal @
        [Dispatched 10 \<lparr>ev_type = ''ionViewWillDismiss'', bubbles = False, cancelable = False,
                        ev_detail = Detail (JNum 1) (Some ''custom'')\<rparr>]\<rparr> \<and>
   usersElement fresh_modal = None \<and>
   lifecycle \<lparr>ev_type = willDismiss, bubbles = True, cancelable = True,
              ev_detail = Detail (JNum 1) (Some ''custom'')\<rparr> fresh_modal = fresh_modal"
  using lifecycle_bridge [of willDismiss "''ionViewWillDismiss''" shown_modal 10 True True
          "Detail (JNum 1) (Some ''custom'')"]
        lifecycle_bridge [of willDismiss "''ionViewWillDismiss''" fresh_modal 10 True True
          "Detail (JNum 1) (Some ''custom'')"]
  by (simp add: fresh_modal_shown) (simp add: fresh_modal_def)

text \<open>
  Claim C5 as stated fails once content has been detached: \<open>dismiss()\<close> hands
  \<open>usersElement\<close> to the detach and leaves the field as it is. On the instance that was
  presented and dismissed nothing is mounted, yet an ionModalWillPresent event that
  reaches the handler is forwarded to the released handle 10.
\<close>

theorem lifecycle_released_handle_counterexample:
  "mounted gone_modal = [] \<and>
   usersElement gone_modal = Some 10 \<and>
   lifecycle \<lparr>ev_type = willPresent, bubbles = True, cancelable = True,
              ev_detail = NoDetail\<rparr> gone_modal =
     gone_modal\<lparr>trace := trace gone_modal @
        [Dispatched 10 \<lparr>ev_type = ''ionViewWillEnter'', bubbles = False, cancelable = False,
                        ev_detail = NoDetail\<rparr>]\<rparr> \<and>
   lifecycle \<lparr>ev_type = willPresent, bubbles = True, cancelable = True,
              ev_detail = NoDetail\<rparr> gone_modal \<noteq> gone_modal"
proof -
  have u: "usersElement gone_modal = Some 10" "mounted gone_modal = []"
    by (simp_all add: fresh_modal_gone)
  have l: "lifecycle \<lparr>ev_type = willPresent, bubbles = True, cancelable = True,
              ev_detail = NoDetail\<rparr> gone_modal =
     gone_modal\<lparr>trace := trace gone_modal @
        [Dispatched 10 \<lparr>ev_type = ''ionViewWillEnter'', bubbles = False, cancelable = False,
                        ev_detail = NoDetail\<rparr>]\<rparr>"
    by (simp add: lifecycle_def u LIFECYCLE_MAP_simps)
  have "trace (gone_modal\<lparr>trace := trace gone_modal @
        [Dispatched 10 \<lparr>ev_type = ''ionViewWillEnter'', bubbles = False, cancelable = False,
                        ev_detail = NoDetail\<rparr>]\<rparr>) \<noteq> trace gone_modal"
    by simp
  then have "gone_modal\<lparr>trace := trace gone_modal @
        [Dispatched 10 \<lparr>ev_type = ''ionViewWillEnter'', bubbles = False, cancelable = False,
                        ev_detail = NoDetail\<rparr>]\<rparr> \<noteq> gone_modal"
    by (metis)
  with u l show ?thesis by simp
qed

section \<open>Presenting\<close>

text \<open>
  Claim C2. When \<open>present()\<close> is called on an instance that is not presented and the
  container (the element matching \<open>.modal-wrapper\<close>) cannot be found, the call fails with
  the error of line 165, which the spec names MountError, and leaves the instance and
  its environment exactly as they were: nothing is attached, no event is emitted, and
  \<open>presented\<close> stays false. The synchronous part of the call already fails so.
\<close>

theorem present_without_container:
  assumes "\<not> presented m" and "wrapper m = None"
  shows "present m = (Inl MountError, m) \<and>
         present_sync m = (Settled (Inl MountError), m) \<and>
         \<not> presented (snd (present m)) \<and>
         attach_calls (trace (snd (present m))) = attach_calls (trace m) \<and>
         emitted (trace (snd (present m))) = emitted (trace m)"
  using assms by (simp add: present_def present_sync_def)

theorem present_without_container_witness:
  "\<not> presented (fresh_modal\<lparr>wrapper := None\<rparr>) \<and>
   wrapper (fresh_modal\<lparr>wrapper := None\<rparr>) = None \<and>
   present (fresh_modal\<lparr>wrapper := None\<rparr>) = (Inl MountError, fresh_modal\<lparr>wrapper := None\<rparr>) \<and>
   emitted (trace (snd (present (fresh_modal\<lparr>wrapper := None\<rparr>)))) = []"
  using present_without_container [of "fresh_modal\<lparr>wrapper := None\<rparr>"]
  by (simp add: fresh_modal_def)

text \<open>
  Claim C1, as amended. A \<open>present()\<close> made while \<open>presented\<close> is true returns at once and
  changes nothing: it attaches no content and emits no event. So two calls in a row, the
  second made after the first has completed, emit exactly one WillPresent and one
  DidPresent and attach once. The guard is the boolean \<open>presented\<close>, not a state that
  also covers a call in flight.
\<close>

theorem present_twice:
  "(presented m \<longrightarrow> present m = (Inr (), m) \<and> present_sync m = (Settled (Inr ()), m)) \<and>
   (\<not> presented m \<and> fst (present m) = Inr () \<longrightarrow>
      present (snd (present m)) = (Inr (), snd (present m)) \<and>
      emitted (trace (snd (present (snd (present m))))) =
        emitted (trace m) @ [(willPresent, NoDetail), (didPresent, NoDetail)] \<and>
      length (attach_calls (trace (snd (present (snd (present m)))))) =
        Suc (length (attach_calls (trace m))))"
proof (intro conjI impI)
  assume "presented m"
  then show "present m = (Inr (), m)" "present_sync m = (Settled (Inr ()), m)"
    by (simp_all add: present_def present_sync_def)
next
  assume idle: "\<not> presented m \<and> fst (present m) = Inr ()"
  then obtain c where c: "wrapper m = Some c"
    by (cases "wrapper m") (auto simp: present_no_container)
  from idle c have r: "component m \<in> set (renderable m)"
    by (cases "component m \<in> set (renderable m)") (auto simp: present_unresolved)
  note first = present_idle [OF conjunct1 [OF idle] c r]
  have again: "present (snd (present m)) = (Inr (), snd (present m))"
    by (rule present_presented) (simp add: first)
  show "present (snd (present m)) = (Inr (), snd (present m))"
    by (rule again)
  show "emitted (trace (snd (present (snd (present m))))) =
          emitted (trace m) @ [(willPresent, NoDetail), (didPresent, NoDetail)]"
    unfolding again by (simp add: first emitted_append)
  show "length (attach_calls (trace (snd (present (snd (present m)))))) =
          Suc (length (attach_calls (trace m)))"
    unfolding again by (simp add: first attach_calls_append)
qed

theorem present_twice_witness:
  "\<not> presented fresh_modal \<and> fst (present fresh_modal) = Inr () \<and>
   present (snd (present fresh_modal)) = (Inr (), snd (present fresh_modal)) \<and>
   emitted (trace (snd (present (snd (present fresh_modal))))) =
     [(willPresent, NoDetail), (didPresent, NoDetail)] \<and>
   presented shown_modal \<and> present shown_modal = (Inr (), shown_modal)"
proof -
  have idle: "\<not> presented fresh_modal \<and> fst (present fresh_modal) = Inr ()"
    by (simp add: present_fresh_modal) (simp add: fresh_modal_def)
  have shown: "presented shown_modal"
    by (simp add: fresh_modal_shown)
  have "emitted (trace fresh_modal) = []"
    by (simp add: fresh_modal_def)
  with present_twice [of fresh_modal] present_twice [of shown_modal] idle shown
  show ?thesis by auto
qed

text \<open>
  Claim C1 as stated fails for a call in flight. The first \<open>present()\<close> on the fresh
  instance runs to its \<open>await\<close> on the attach and is suspended there, with
  \<open>presented\<close> still false; a second \<open>present()\<close> made now passes the guard and requests
  a second attach, so two contents are mounted.
\<close>

theorem present_in_flight_counterexample:
  "fst (present_sync fresh_modal) = AwaitingAttach 10 \<and>
   \<not> presented (snd (present_sync fresh_modal)) \<and>
   fst (present_sync (snd (present_sync fresh_modal))) = AwaitingAttach 11 \<and>
   attach_calls (trace (snd (present_sync (snd (present_sync fresh_modal))))) =
     [(2, ''my-page'', [''ion-page''], [(''title'', JStr ''Hello''), (''modal'', JElem 1)]),
      (2, ''my-page'', [''ion-page''], [(''title'', JStr ''Hello''), (''modal'', JElem 1)])] \<and>
   mounted (snd (present_sync (snd (present_sync fresh_modal)))) = [10, 11]"
  by (simp add: present_sync_def attachComponent_def fresh_modal_def)

text \<open>
  Claim C8, as amended. The synchronous part of a \<open>present()\<close> that gets past the guard
  and finds the container requests the attach with the caller's componentProps spread
  first and the overlay's own host element bound under the key \<open>modal\<close>, and with the
  marker classes \<open>['ion-page']\<close>; the whole call requests that one attach and no other.
  The binding under \<open>modal\<close> overrides a caller's entry of that name; every other key is
  the caller's.
\<close>

theorem present_merged_props:
  assumes "\<not> presented m" and "wrapper m = Some c" and "component m \<in> set (renderable m)"
  shows "fst (present m) = Inr () \<and>
         attach_calls (trace (snd (present_sync m))) =
           attach_calls (trace m) @
             [(c, component m, [''ion-page''],
               AList.update ''modal'' (JElem (el m))
                 (case componentProps m of None \<Rightarrow> [] | Some p \<Rightarrow> p))] \<and>
         attach_calls (trace (snd (present m))) = attach_calls (trace (snd (present_sync m))) \<and>
         map_of (AList.update ''modal'' (JElem (el m))
                   (case componentProps m of None \<Rightarrow> [] | Some p \<Rightarrow> p)) ''modal'' =
           Some (JElem (el m)) \<and>
         (k \<noteq> ''modal'' \<longrightarrow>
            map_of (AList.update ''modal'' (JElem (el m))
                      (case componentProps m of None \<Rightarrow> [] | Some p \<Rightarrow> p)) k =
            map_of (case componentProps m of None \<Rightarrow> [] | Some p \<Rightarrow> p) k)"
  by (simp add: present_idle [OF assms] present_sync_idle [OF assms] attach_calls_append
      update_conv')

theorem present_merged_props_witness:
  "\<not> presented fresh_modal \<and> wrapper fresh_modal = Some 2 \<and>
   component fresh_modal \<in> set (renderable fresh_modal) \<and>
   ''title'' \<noteq> ''modal'' \<and>
   attach_calls (trace (snd (present fresh_modal))) =
     [(2, ''my-page'', [''ion-page''], [(''title'', JStr ''Hello''), (''modal'', JElem 1)])] \<and>
   map_of [(''title'', JStr ''Hello''), (''modal'', JElem 1)] ''title'' = Some (JStr ''Hello'')"
proof -
  have h: "\<not> presented fresh_modal" "wrapper fresh_modal = Some 2"
    "component fresh_modal \<in> set (renderable fresh_modal)"
    by (simp_all add: fresh_modal_def)
  have "attach_calls (trace fresh_modal) = []" "el fresh_modal = 1"
    "componentProps fresh_modal = Some [(''title'', JStr ''Hello'')]"
    "component fresh_modal = ''my-page''"
    by (simp_all add: fresh_modal_def)
  with present_merged_props [OF h, of "''title''"] h show ?thesis
    by simp
qed

text \<open>
  Claim C8 as stated names the key \<open>hostRef\<close>. On the fresh instance the props bag
  handed to the attach binds the host element 1 under \<open>modal\<close> and holds nothing under
  \<open>hostRef\<close>.
\<close>

theorem present_props_hostRef_counterexample:
  "fst (present fresh_modal) = Inr () \<and>
   attach_calls (trace (snd (present fresh_modal))) =
     [(2, ''my-page'', [''ion-page''], [(''title'', JStr ''Hello''), (''modal'', JElem 1)])] \<and>
   map_of (snd (snd (snd (hd (attach_calls (trace (snd (present fresh_modal)))))))) ''hostRef''
     = None \<and>
   map_of (snd (snd (snd (hd (attach_calls (trace (snd (present fresh_modal)))))))) ''modal''
     = Some (JElem 1)"
  by (simp add: present_fresh_modal fresh_modal_shown)

section \<open>Dismissing\<close>

text \<open>
  Claim C3. \<open>dismiss(data, role)\<close> on an instance that is not presented, whether it never
  was or has been dismissed already, returns false and leaves everything as it was, so
  it emits nothing. On a presented instance it returns true, having emitted WillDismiss
  and DidDismiss with the payload and set \<open>presented\<close> to false. In both cases the
  detach of the content element is requested exactly when the call returns true.
\<close>

theorem dismiss_guard_and_detach:
  "(\<not> presented m \<longrightarrow> dismiss data role m = (False, m)) \<and>
   (presented m \<longrightarrow>
      fst (dismiss data role m) \<and>
      \<not> presented (snd (dismiss data role m)) \<and>
      emitted (trace (snd (dismiss data role m))) =
        emitted (trace m) @
          [(willDismiss, Detail data role), (didDismiss, Detail data role)]) \<and>
   dismiss data' role' (snd (dismiss data role m)) = (False, snd (dismiss data role m)) \<and>
   detach_calls (trace (snd (dismiss data role m))) =
     detach_calls (trace m) @ (if fst (dismiss data role m) then [usersElement m] else [])"
proof (cases "presented m")
  case True
  then show ?thesis
    by (simp add: dismiss_presented dismiss_not_presented emitted_append detach_calls_append)
next
  case False
  then show ?thesis
    by (simp add: dismiss_not_presented)
qed

theorem dismiss_guard_and_detach_witness:
  "\<not> presented fresh_modal \<and>
   dismiss (JNum 1) (Some ''custom'') fresh_modal = (False, fresh_modal) \<and>
   presented shown_modal \<and>
   fst (dismiss (JNum 1) (Some ''custom'') shown_modal) \<and>
   detach_calls (trace (snd (dismiss (JNum 1) (Some ''custom'') shown_modal))) = [Some 10] \<and>
   emitted (trace (snd (dismiss (JNum 1) (Some ''custom'') shown_modal))) =
     [(willPresent, NoDetail), (didPresent, NoDetail),
      (willDismiss, Detail (JNum 1) (Some ''custom'')),
      (didDismiss, Detail (JNum 1) (Some ''custom''))]"
proof -
  have h: "\<not> presented fresh_modal" "presented shown_modal"
    by (simp_all add: fresh_modal_shown) (simp add: fresh_modal_def)
  have e: "emitted (trace shown_modal) = [(willPresent, NoDetail), (didPresent, NoDetail)]"
    "detach_calls (trace shown_modal) = []" "usersElement shown_modal = Some 10"
    by (simp_all add: fresh_modal_shown)
  from dismiss_guard_and_detach [of fresh_modal "JNum 1" "Some ''custom''" JUndefined None]
       dismiss_guard_and_detach [of shown_modal "JNum 1" "Some ''custom''" JUndefined None]
       h e
  show ?thesis by auto
qed

text \<open>
  Claim C4, as amended. After a \<open>present()\<close> and a \<open>dismiss()\<close> that both succeed the
  content handle is unmounted, its detach has been requested, and \<open>presented\<close> is false
  again. That state is not terminal: a further \<open>present()\<close> on the same instance passes
  the guard, attaches content again and emits a second WillPresent and DidPresent.
\<close>

theorem present_after_round_trip:
  assumes "\<not> presented m" and "wrapper m = Some c" and "component m \<in> set (renderable m)"
  shows "fst (present m) = Inr () \<and>
         fst (dismiss data role (snd (present m))) \<and>
         \<not> presented (snd (dismiss data role (snd (present m)))) \<and>
         nextHandle m \<notin> set (mounted (snd (dismiss data role (snd (present m))))) \<and>
         detach_calls (trace (snd (dismiss data role (snd (present m))))) =
           detach_calls (trace m) @ [Some (nextHandle m)] \<and>
         fst (present (snd (dismiss data role (snd (present m))))) = Inr () \<and>
         presented (snd (present (snd (dismiss data role (snd (present m)))))) \<and>
         length (attach_calls (trace (snd (present (snd (dismiss data role (snd (present m)))))))) =
           length (attach_calls (trace m)) + 2 \<and>
         emitted (trace (snd (present (snd (dismiss data role (snd (present m))))))) =
           emitted (trace m) @
             [(willPresent, NoDetail), (didPresent, NoDetail),
              (willDismiss, Detail data role), (didDismiss, Detail data role),
              (willPresent, NoDetail), (didPresent, NoDetail)]"
  using assms
  by (simp add: present_idle [where c = c] dismiss_presented emitted_append
      attach_calls_append detach_calls_append)

theorem present_after_round_trip_witness:
  "\<not> presented fresh_modal \<and> wrapper fresh_modal = Some 2 \<and>
   component fresh_modal \<in> set (renderable fresh_modal) \<and>
   fst (dismiss JUndefined None (snd (present fresh_modal))) \<and>
   fst (present (snd (dismiss JUndefined None (snd (present fresh_modal))))) = Inr () \<and>
   presented (snd (present (snd (dismiss JUndefined None (snd (present fresh_modal))))))"
proof -
  have h: "\<not> presented fresh_modal" "wrapper fresh_modal = Some 2"
    "component fresh_modal \<in> set (renderable fresh_modal)"
    by (simp_all add: fresh_modal_def)
  from present_after_round_trip [OF h, of JUndefined None] h show ?thesis
    by simp
qed

text \<open>
  Claim C4 as stated fails on the fresh instance: it is presented, then dismissed (the
  content handle 10 is unmounted), and the next \<open>present()\<close> is not rejected. Its
  synchronous part passes the guard and requests the attach of a new content, handle 11;
  the call succeeds and emits the two present events a second time.
\<close>

theorem dismissed_is_terminal_counterexample:
  "present fresh_modal = (Inr (), shown_modal) \<and>
   dismiss JUndefined None shown_modal = (True, gone_modal) \<and>
   mounted gone_modal = [] \<and>
   \<not> presented gone_modal \<and>
   fst (present_sync gone_modal) = AwaitingAttach 11 \<and>
   mounted (snd (present_sync gone_modal)) = [11] \<and>
   fst (present gone_modal) = Inr () \<and>
   presented (snd (present gone_modal)) \<and>
   mounted (snd (present gone_modal)) = [11] \<and>
   emitted (trace (snd (present gone_modal))) =
     [(willPresent, NoDetail), (didPresent, NoDetail),
      (willDismiss, Detail JUndefined None), (didDismiss, Detail JUndefined None),
      (willPresent, NoDetail), (didPresent, NoDetail)]"
proof -
  have g: "\<not> presented gone_modal" "wrapper gone_modal = Some 2"
    "component gone_modal \<in> set (renderable gone_modal)" "mounted gone_modal = []"
    "nextHandle gone_modal = 11"
    by (simp_all add: fresh_modal_gone) (simp_all add: fresh_modal_def)
  have e: "emitted (trace gone_modal) =
      [(willPresent, NoDetail), (didPresent, NoDetail),
       (willDismiss, Detail JUndefined None), (didDismiss, Detail JUndefined None)]"
    by (simp add: fresh_modal_gone)
  show ?thesis
    by (simp add: present_fresh_modal dismiss_shown_modal present_idle [where c = 2]
        present_sync_idle [where c = 2] g e emitted_append)
qed

text \<open>
  Claim C10, as amended. The listener for \<open>ionDismiss\<close> stops the propagation of the
  event it receives, calls \<open>preventDefault()\<close> on it, which prevents the default action
  of a cancelable event and leaves an event that is not cancelable as it was, and calls
  \<open>dismiss()\<close> with no data and no role. The call goes through the guard of every
  dismiss: on an instance that is not presented it returns false and changes nothing, on
  a presented one it dismisses with the empty payload.
\<close>

theorem onDismiss_consumes_event:
  "propagationStopped (fst (onDismiss ev m)) \<and>
   (ui_cancelable ev \<longrightarrow> defaultPrevented (fst (onDismiss ev m))) \<and>
   (\<not> ui_cancelable ev \<longrightarrow>
      defaultPrevented (fst (onDismiss ev m)) = defaultPrevented ev) \<and>
   ui_cancelable (fst (onDismiss ev m)) = ui_cancelable ev \<and>
   snd (onDismiss ev m) = dismiss JUndefined None m \<and>
   (\<not> presented m \<longrightarrow> snd (onDismiss ev m) = (False, m)) \<and>
   (presented m \<longrightarrow>
      fst (snd (onDismiss ev m)) \<and>
      \<not> presented (snd (snd (onDismiss ev m))) \<and>
      emitted (trace (snd (snd (onDismiss ev m)))) =
        emitted (trace m) @
          [(willDismiss, Detail JUndefined None), (didDismiss, Detail JUndefined None)])"
  by (simp add: onDismiss_def stopPropagation_def preventDefault_def Let_def
      dismiss_not_presented dismiss_presented emitted_append)

theorem onDismiss_consumes_event_witness:
  "\<not> presented fresh_modal \<and>
   snd (onDismiss \<lparr>ui_cancelable = True, propagationStopped = False,
                   defaultPrevented = False\<rparr> fresh_modal) = (False, fresh_modal) \<and>
   presented shown_modal \<and>
   snd (onDismiss \<lparr>ui_cancelable = True, propagationStopped = False,
                   defaultPrevented = False\<rparr> shown_modal) = (True, gone_modal) \<and>
   ui_cancelable \<lparr>ui_cancelable = True, propagationStopped = False, defaultPrevented = False\<rparr> \<and>
   defaultPrevented (fst (onDismiss \<lparr>ui_cancelable = True, propagationStopped = False,
                                      defaultPrevented = False\<rparr> shown_modal)) \<and>
   \<not> ui_cancelable \<lparr>ui_cancelable = False, propagationStopped = False,
                     defaultPrevented = False\<rparr> \<and>
   propagationStopped (fst (onDismiss \<lparr>ui_cancelable = False, propagationStopped = False,
                                        defaultPrevented = False\<rparr> shown_modal))"
proof -
  have h: "\<not> presented fresh_modal" "presented shown_modal"
    by (simp_all add: fresh_modal_shown) (simp add: fresh_modal_def)
  from onDismiss_consumes_event
         [of "\<lparr>ui_cancelable = True, propagationStopped = False, defaultPrevented = False\<rparr>"
             fresh_modal]
       onDismiss_consumes_event
         [of "\<lparr>ui_cancelable = True, propagationStopped = False, defaultPrevented = False\<rparr>"
             shown_modal]
       onDismiss_consumes_event
         [of "\<lparr>ui_cancelable = False, propagationStopped = False, defaultPrevented = False\<rparr>"
             shown_modal]
       h dismiss_shown_modal
  show ?thesis
    by auto
qed

text \<open>
  Claim C10 as stated fails for an event that is not cancelable: the handler stops its
  propagation and dismisses the presented instance, but \<open>preventDefault()\<close> has no effect
  on it, so its default action is not prevented.
\<close>

theorem onDismiss_not_cancelable_counterexample:
  "propagationStopped (fst (onDismiss \<lparr>ui_cancelable = False, propagationStopped = False,
                                        defaultPrevented = False\<rparr> shown_modal)) \<and>
   \<not> defaultPrevented (fst (onDismiss \<lparr>ui_cancelable = False, propagationStopped = False,
                                         defaultPrevented = False\<rparr> shown_modal)) \<and>
   snd (onDismiss \<lparr>ui_cancelable = False, propagationStopped = False,
                   defaultPrevented = False\<rparr> shown_modal) = (True, gone_modal)"
  by (simp add: onDismiss_def stopPropagation_def preventDefault_def Let_def
      dismiss_shown_modal)

section \<open>The backdrop\<close>

text \<open>
  Claim C6. The backdrop is rendered visible exactly when showBackdrop holds and
  tappable exactly when backdropDismiss holds. The listener for its tap calls
  \<open>dismiss(undefined, "backdrop")\<close>, so a tap on a tappable backdrop does what that call
  does, guard included; with backdropDismiss false, or on an instance that is not
  presented, a tap changes nothing: no dismissal, no event.
\<close>

theorem backdrop_controller:
  "render t m =
     [IonBackdrop (showBackdrop m) (backdropDismiss m), Div ''dialog'' (t (mode m) ''modal-wrapper'')] \<and>
   onBackdropTap m = dismiss JUndefined (Some ''backdrop'') m \<and>
   (backdropDismiss m \<longrightarrow> backdrop_tap t m = snd (dismiss JUndefined (Some ''backdrop'') m)) \<and>
   (\<not> backdropDismiss m \<longrightarrow> backdrop_tap t m = m) \<and>
   (\<not> presented m \<longrightarrow> backdrop_tap t m = m) \<and>
   (backdropDismiss m \<and> presented m \<longrightarrow>
      \<not> presented (backdrop_tap t m) \<and>
      emitted (trace (backdrop_tap t m)) =
        emitted (trace m) @
          [(willDismiss, Detail JUndefined (Some ''backdrop'')),
           (didDismiss, Detail JUndefined (Some ''backdrop''))])"
  by (simp add: render_def backdrop_tap_def onBackdropTap_def BACKDROP_def
      dismiss_not_presented dismiss_presented emitted_append)

theorem backdrop_controller_witness:
  "backdropDismiss shown_modal \<and> presented shown_modal \<and>
   \<not> presented (backdrop_tap no_classes shown_modal) \<and>
   \<not> backdropDismiss (shown_modal\<lparr>backdropDismiss := False\<rparr>) \<and>
   backdrop_tap no_classes (shown_modal\<lparr>backdropDismiss := False\<rparr>) =
     shown_modal\<lparr>backdropDismiss := False\<rparr> \<and>
   \<not> presented fresh_modal \<and>
   backdrop_tap no_classes fresh_modal = fresh_modal"
proof -
  have h: "backdropDismiss shown_modal" "presented shown_modal"
    "\<not> backdropDismiss (shown_modal\<lparr>backdropDismiss := False\<rparr>)" "\<not> presented fresh_modal"
    by (simp_all add: fresh_modal_shown) (simp_all add: fresh_modal_def)
  from backdrop_controller [of no_classes shown_modal]
       backdrop_controller [of no_classes "shown_modal\<lparr>backdropDismiss := False\<rparr>"]
       backdrop_controller [of no_classes fresh_modal]
       h
  show ?thesis by blast
qed

section \<open>Choice of the animation\<close>

text \<open>
  Claim C7. The builder of the animation a transition plays is the caller's override
  when there is one, and otherwise the entry of the table for the mode and the
  direction: the ios or md enter builder for \<open>present()\<close>, the ios or md leave builder
  for \<open>dismiss()\<close>. With \<open>animated\<close> false no animation is played: \<open>present()\<close> attaches,
  waits for readiness, emits WillPresent and then DidPresent (each forwarded to the
  content), and \<open>presented\<close> is true.
\<close>

theorem animation_selection:
  "select Ios Enter = iosEnterAnimation \<and> select Md Enter = mdEnterAnimation \<and>
   select Ios Leave = iosLeaveAnimation \<and> select Md Leave = mdLeaveAnimation \<and>
   (\<not> presented m \<and> wrapper m = Some c \<and> component m \<in> set (renderable m) \<longrightarrow>
      played (trace (snd (present m))) =
        played (trace m) @
          (if animated m
           then [case enterAnimation m of Some b \<Rightarrow> b | None \<Rightarrow> select (mode m) Enter]
           else []) \<and>
      (\<not> animated m \<longrightarrow>
         present m =
           (Inr (),
            m\<lparr>usersElement := Some (nextHandle m),
              presented := True,
              nextHandle := Suc (nextHandle m),
              mounted := mounted m @ [nextHandle m],
              trace := trace m @
                [Attached (delegate m) c (component m) [''ion-page'']
                   (AList.update ''modal'' (JElem (el m))
                      (case componentProps m of None \<Rightarrow> [] | Some p \<Rightarrow> p))
                   (nextHandle m),
                 Readied (Some (nextHandle m)),
                 Emitted willPresent NoDetail,
                 Dispatched (nextHandle m)
                   \<lparr>ev_type = ''ionViewWillEnter'', bubbles = False, cancelable = False,
                    ev_detail = NoDetail\<rparr>,
                 Emitted didPresent NoDetail,
                 Dispatched (nextHandle m)
                   \<lparr>ev_type = ''ionViewDidEnter'', bubbles = False, cancelable = False,
                    ev_detail = NoDetail\<rparr>]\<rparr>))) \<and>
   (presented m \<longrightarrow>
      played (trace (snd (dismiss data role m))) =
        played (trace m) @
          (if animated m
           then [case leaveAnimation m of Some b \<Rightarrow> b | None \<Rightarrow> select (mode m) Leave]
           else []))"
  by (simp add: present_idle [where c = c] dismiss_presented played_append forwarded_Some)

theorem animation_selection_witness:
  "\<not> presented fresh_modal \<and> wrapper fresh_modal = Some 2 \<and>
   component fresh_modal \<in> set (renderable fresh_modal) \<and> animated fresh_modal \<and>
   played (trace (snd (present fresh_modal))) = [iosEnterAnimation] \<and>
   \<not> animated (fresh_modal\<lparr>mode := Md, animated := False\<rparr>) \<and>
   played (trace (snd (present (fresh_modal\<lparr>mode := Md, animated := False\<rparr>)))) = [] \<and>
   presented (snd (present (fresh_modal\<lparr>mode := Md, animated := False\<rparr>))) \<and>
   presented (shown_modal\<lparr>mode := Md, leaveAnimation := Some (CustomAnimation 7)\<rparr>) \<and>
   played (trace (snd (dismiss JUndefined None
       (shown_modal\<lparr>mode := Md, leaveAnimation := Some (CustomAnimation 7)\<rparr>)))) =
     [iosEnterAnimation, CustomAnimation 7]"
proof -
  have h: "\<not> presented fresh_modal \<and> wrapper fresh_modal = Some 2 \<and>
      component fresh_modal \<in> set (renderable fresh_modal)"
    "animated fresh_modal" "enterAnimation fresh_modal = None" "mode fresh_modal = Ios"
    "played (trace fresh_modal) = []"
    by (simp_all add: fresh_modal_def)
  have h': "\<not> presented (fresh_modal\<lparr>mode := Md, animated := False\<rparr>) \<and>
      wrapper (fresh_modal\<lparr>mode := Md, animated := False\<rparr>) = Some 2 \<and>
      component (fresh_modal\<lparr>mode := Md, animated := False\<rparr>)
        \<in> set (renderable (fresh_modal\<lparr>mode := Md, animated := False\<rparr>))"
    "\<not> animated (fresh_modal\<lparr>mode := Md, animated := False\<rparr>)"
    "played (trace (fresh_modal\<lparr>mode := Md, animated := False\<rparr>)) = []"
    by (simp_all add: fresh_modal_def)
  have s: "presented (shown_modal\<lparr>mode := Md, leaveAnimation := Some (CustomAnimation 7)\<rparr>)"
    "animated (shown_modal\<lparr>mode := Md, leaveAnimation := Some (CustomAnimation 7)\<rparr>)"
    "leaveAnimation (shown_modal\<lparr>mode := Md, leaveAnimation := Some (CustomAnimation 7)\<rparr>) =
       Some (CustomAnimation 7)"
    "played (trace (shown_modal\<lparr>mode := Md, leaveAnimation := Some (CustomAnimation 7)\<rparr>)) =
       [iosEnterAnimation]"
    by (simp_all add: fresh_modal_shown) (simp_all add: fresh_modal_def)
  from animation_selection [of fresh_modal 2 JUndefined None]
       animation_selection [of "fresh_modal\<lparr>mode := Md, animated := False\<rparr>" 2 JUndefined None]
       animation_selection
         [of "shown_modal\<lparr>mode := Md, leaveAnimation := Some (CustomAnimation 7)\<rparr>" 2
             JUndefined None]
       h h' s
  show ?thesis by auto
qed

end
